theory Spec2Isabelle
  imports Complex_Main "HOL-Library.Multiset" "HOL-Library.List_Lexorder" "HOL-Library.Char_ord"
begin

section \<open>Data model (core/models.py)\<close>

text \<open>
  Dates are day ordinals (\<open>int\<close>): \<open>(a - b).days\<close> is the difference of the ordinals,
  and adding a day never overflows (the planning window ends before \<open>date.max\<close>).
  A \<open>datetime.time\<close> built by \<open>time(h, m)\<close> or by \<open>strptime(_, "%H:%M")\<close> has only an
  hour and a minute.  Hours (Python floats) are exact rationals.  The dictionary
  \<open>ctx.employees\<close> (employee id to Employee) is the list of its values in insertion
  order, the key of an entry being its \<open>emp_id\<close>; a dictionary holds a key once, which
  the theorems that need it assume as \<open>distinct (map emp_id (employees ctx))\<close>.  The
  dictionaries of \<open>ctx.availability\<close> are association lists in insertion order, read
  with \<open>map_of\<close>.
\<close>

datatype ContractType = FULL_TIME | PART_TIME | CASUAL

datatype SkillTag = KITCHEN | COUNTER | MCCAFe | DESSERT | DELIVERY | MANAGER

record Employee =
  emp_id :: string
  emp_name :: string
  contract_type :: ContractType
  skill_tags :: "SkillTag list"

record pytime =
  hour :: nat
  minute :: nat

record ShiftTemplate =
  tpl_start :: pytime
  tpl_end :: pytime
  tpl_hours :: rat

type_synonym templates = "string \<rightharpoonup> ShiftTemplate"

record ShiftAssignment =
  sa_employee_id :: string
  sa_date :: int
  sa_shift_code :: string
  sa_station :: "SkillTag option"
  sa_store_id :: string

record Roster =
  r_store_id :: string
  r_start_date :: int
  r_end_date :: int
  r_assignments :: "ShiftAssignment list"

datatype ViolationSeverity = HARD | SOFT

text \<open>
  The message of a violation is an f-string; the model keeps the interpolated values
  (name, id, hours, week number, dates, shift codes) instead of the rendered text.
\<close>

datatype message =
    MsgMinHours string string rat rat ContractType
  | MsgMaxHours string string rat rat ContractType
  | MsgWeeklyMin string string rat int rat ContractType
  | MsgWeeklyMax string string rat int rat ContractType
  | MsgCasualShift string string rat int
  | MsgRest string string rat int string int string
  | MsgConsecutive string string nat int
  | MsgUnknownEmployee string int

record Violation =
  v_severity :: ViolationSeverity
  v_code :: string
  v_message :: message
  v_employee_id :: "string option"
  v_date :: "int option"
  v_extra :: "(string \<times> string) list"

record SystemContext =
  employees :: "Employee list"
  availability :: "(string \<times> (int \<times> string list) list) list"
  demand_by_date :: "int \<rightharpoonup> (SkillTag \<times> int) list"
  manager_template_by_weekday :: "int \<rightharpoonup> int"

definition dict_get :: "('k \<rightharpoonup> 'v) \<Rightarrow> 'k \<Rightarrow> 'v \<Rightarrow> 'v" where
  "dict_get m k d = (case m k of Some v \<Rightarrow> v | None \<Rightarrow> d)"

section \<open>Rule tables (agents/compliance.py)\<close>

definition mk_time :: "nat \<Rightarrow> nat \<Rightarrow> pytime" where
  "mk_time h m = \<lparr>hour = h, minute = m\<rparr>"

definition mk_tpl :: "pytime \<Rightarrow> pytime \<Rightarrow> rat \<Rightarrow> ShiftTemplate" where
  "mk_tpl s e h = \<lparr>tpl_start = s, tpl_end = e, tpl_hours = h\<rparr>"

definition DEFAULT_SHIFT_TEMPLATES :: templates where
  "DEFAULT_SHIFT_TEMPLATES =
     [''S'' \<mapsto> mk_tpl (mk_time 6 30) (mk_time 15 0) (17 / 2),
      ''1F'' \<mapsto> mk_tpl (mk_time 6 30) (mk_time 15 30) 9,
      ''2F'' \<mapsto> mk_tpl (mk_time 14 0) (mk_time 23 0) 9,
      ''3F'' \<mapsto> mk_tpl (mk_time 8 0) (mk_time 20 0) 12,
      ''SC'' \<mapsto> mk_tpl (mk_time 11 0) (mk_time 20 0) 9]"

text \<open>
  \<open>SHIFT_TEMPLATES\<close> is \<open>DEFAULT_SHIFT_TEMPLATES\<close> overridden by the rows of a
  spreadsheet that is not part of the sources, so every definition below takes the
  table as its parameter \<open>T\<close>.
\<close>

definition DEFAULT_SHIFT_HOURS :: rat where
  "DEFAULT_SHIFT_HOURS = 8"

definition SHIFT_HOURS_get :: "templates \<Rightarrow> string \<Rightarrow> rat" where
  "SHIFT_HOURS_get T c = (case T c of Some tpl \<Rightarrow> tpl_hours tpl | None \<Rightarrow> DEFAULT_SHIFT_HOURS)"

fun CONTRACT_HOURS_BOUNDS :: "ContractType \<Rightarrow> (rat \<times> rat) option" where
  "CONTRACT_HOURS_BOUNDS FULL_TIME = Some (70, 76)"
| "CONTRACT_HOURS_BOUNDS PART_TIME = Some (40, 64)"
| "CONTRACT_HOURS_BOUNDS CASUAL = Some (16, 48)"

fun WEEKLY_CONTRACT_HOURS_BOUNDS :: "ContractType \<Rightarrow> (rat \<times> rat) option" where
  "WEEKLY_CONTRACT_HOURS_BOUNDS FULL_TIME = Some (35, 38)"
| "WEEKLY_CONTRACT_HOURS_BOUNDS PART_TIME = Some (20, 32)"
| "WEEKLY_CONTRACT_HOURS_BOUNDS CASUAL = Some (8, 24)"

definition MIN_SHIFT_HOURS_CASUAL :: rat where
  "MIN_SHIFT_HOURS_CASUAL = 3"

definition MIN_REST_HOURS_BETWEEN_DAYS :: rat where
  "MIN_REST_HOURS_BETWEEN_DAYS = 10"

definition MAX_CONSECUTIVE_WORKING_DAYS :: nat where
  "MAX_CONSECUTIVE_WORKING_DAYS = 6"

definition minutes_of :: "pytime \<Rightarrow> int" where
  "minutes_of t = int (hour t) * 60 + int (minute t)"

section \<open>ComplianceAgent.check_roster (agents/compliance.py)\<close>

definition mk_violation ::
  "ViolationSeverity \<Rightarrow> string \<Rightarrow> message \<Rightarrow> string option \<Rightarrow> int option \<Rightarrow> Violation" where
  "mk_violation sev c msg e d =
     \<lparr>v_severity = sev, v_code = c, v_message = msg, v_employee_id = e, v_date = d,
      v_extra = []\<rparr>"

text \<open>Steps 1 and 2: total hours per employee against the bi-weekly bounds.\<close>

definition add_hours :: "('k \<rightharpoonup> rat) \<Rightarrow> 'k \<Rightarrow> rat \<Rightarrow> ('k \<rightharpoonup> rat)" where
  "add_hours m k h = m(k \<mapsto> dict_get m k 0 + h)"

definition hours_by_emp_of :: "templates \<Rightarrow> ShiftAssignment list \<Rightarrow> (string \<rightharpoonup> rat)" where
  "hours_by_emp_of T asg =
     fold (\<lambda>a m. add_hours m (sa_employee_id a) (SHIFT_HOURS_get T (sa_shift_code a)))
       asg Map.empty"

definition check_bounds_emp :: "(string \<rightharpoonup> rat) \<Rightarrow> Employee \<Rightarrow> Violation list" where
  "check_bounds_emp hrs emp =
     (let total_hours = dict_get hrs (emp_id emp) 0 in
      case CONTRACT_HOURS_BOUNDS (contract_type emp) of
        None \<Rightarrow> []
      | Some (min_h, max_h) \<Rightarrow>
          (if total_hours < min_h
           then [mk_violation SOFT ''MIN_HOURS_NOT_MET''
                   (MsgMinHours (emp_name emp) (emp_id emp) total_hours min_h (contract_type emp))
                   (Some (emp_id emp)) None]
           else []) @
          (if total_hours > max_h
           then [mk_violation HARD ''MAX_HOURS_EXCEEDED''
                   (MsgMaxHours (emp_name emp) (emp_id emp) total_hours max_h (contract_type emp))
                   (Some (emp_id emp)) None]
           else []))"

definition check_bounds :: "templates \<Rightarrow> SystemContext \<Rightarrow> Roster \<Rightarrow> Violation list" where
  "check_bounds T ctx roster =
     concat (map (check_bounds_emp (hours_by_emp_of T (r_assignments roster))) (employees ctx))"

text \<open>Step 2b: weekly hours, keyed by (employee id, week index).\<close>

definition weekly_hours_of ::
  "templates \<Rightarrow> Roster \<Rightarrow> (string \<times> int \<rightharpoonup> rat)" where
  "weekly_hours_of T roster =
     fold (\<lambda>a m.
             if sa_date a < r_start_date roster then m
             else add_hours m (sa_employee_id a, (sa_date a - r_start_date roster) div 7)
                    (SHIFT_HOURS_get T (sa_shift_code a)))
       (r_assignments roster) Map.empty"

definition check_week :: "(string \<times> int \<rightharpoonup> rat) \<Rightarrow> Employee \<Rightarrow> rat \<Rightarrow> rat \<Rightarrow> int \<Rightarrow> Violation list" where
  "check_week wh emp min_w max_w week_index =
     (case wh (emp_id emp, week_index) of
        None \<Rightarrow> []
      | Some total_week \<Rightarrow>
          (if total_week < min_w
           then [mk_violation SOFT ''WEEKLY_MIN_HOURS_NOT_MET''
                   (MsgWeeklyMin (emp_name emp) (emp_id emp) total_week (week_index + 1) min_w
                      (contract_type emp))
                   (Some (emp_id emp)) None]
           else []) @
          (if total_week > max_w
           then (if total_week - max_w \<le> 2 then []
                 else [mk_violation SOFT ''WEEKLY_MAX_HOURS_EXCEEDED''
                         (MsgWeeklyMax (emp_name emp) (emp_id emp) total_week (week_index + 1) max_w
                            (contract_type emp))
                         (Some (emp_id emp)) None])
           else []))"

definition check_weekly_emp :: "(string \<times> int \<rightharpoonup> rat) \<Rightarrow> Employee \<Rightarrow> Violation list" where
  "check_weekly_emp wh emp =
     (case WEEKLY_CONTRACT_HOURS_BOUNDS (contract_type emp) of
        None \<Rightarrow> []
      | Some (min_w, max_w) \<Rightarrow> concat (map (check_week wh emp min_w max_w) [0, 1]))"

definition check_weekly :: "templates \<Rightarrow> SystemContext \<Rightarrow> Roster \<Rightarrow> Violation list" where
  "check_weekly T ctx roster =
     concat (map (check_weekly_emp (weekly_hours_of T roster)) (employees ctx))"

text \<open>Step 3: minimum shift length for casuals.\<close>

definition check_min_shift_one ::
  "templates \<Rightarrow> SystemContext \<Rightarrow> ShiftAssignment \<Rightarrow> Violation list" where
  "check_min_shift_one T ctx a =
     (case find (\<lambda>e. emp_id e = sa_employee_id a) (employees ctx) of
        None \<Rightarrow> []
      | Some emp \<Rightarrow>
          (case T (sa_shift_code a) of
             None \<Rightarrow> []
           | Some tpl \<Rightarrow>
               if contract_type emp = CASUAL \<and> tpl_hours tpl < MIN_SHIFT_HOURS_CASUAL
               then [mk_violation HARD ''MIN_SHIFT_LENGTH_CASUAL''
                       (MsgCasualShift (emp_name emp) (emp_id emp) (tpl_hours tpl) (sa_date a))
                       (Some (emp_id emp)) (Some (sa_date a))]
               else []))"

definition check_min_shift :: "templates \<Rightarrow> SystemContext \<Rightarrow> Roster \<Rightarrow> Violation list" where
  "check_min_shift T ctx roster = concat (map (check_min_shift_one T ctx) (r_assignments roster))"

text \<open>
  Step 4: rest between consecutive days.  \<open>sorted(_, key=date)\<close> is a stable sort, as
  \<open>sort_key\<close> is; \<open>zip(xs, xs[1:])\<close> pairs each assignment with its successor.
\<close>

definition rest_hours_between :: "templates \<Rightarrow> ShiftAssignment \<Rightarrow> ShiftAssignment \<Rightarrow> rat" where
  "rest_hours_between T prev_assignment next_assignment =
     (case T (sa_shift_code prev_assignment) of
        None \<Rightarrow> 24
      | Some tpl_prev \<Rightarrow>
          (case T (sa_shift_code next_assignment) of
             None \<Rightarrow> 24
           | Some tpl_next \<Rightarrow>
               of_int ((sa_date next_assignment * 1440 + minutes_of (tpl_start tpl_next))
                       - (sa_date prev_assignment * 1440 + minutes_of (tpl_end tpl_prev))) / 60))"

definition emp_assignments_sorted :: "Roster \<Rightarrow> string \<Rightarrow> ShiftAssignment list" where
  "emp_assignments_sorted roster eid =
     sort_key sa_date (filter (\<lambda>a. sa_employee_id a = eid) (r_assignments roster))"

definition check_rest_pair ::
  "templates \<Rightarrow> Employee \<Rightarrow> ShiftAssignment \<times> ShiftAssignment \<Rightarrow> Violation list" where
  "check_rest_pair T emp p =
     (case p of (prev, nxt) \<Rightarrow>
        if sa_date nxt - sa_date prev \<noteq> 1 then []
        else (let rest_hours = rest_hours_between T prev nxt in
              if rest_hours < MIN_REST_HOURS_BETWEEN_DAYS
              then [mk_violation HARD ''INSUFFICIENT_REST''
                      (MsgRest (emp_name emp) (emp_id emp) rest_hours (sa_date prev)
                         (sa_shift_code prev) (sa_date nxt) (sa_shift_code nxt))
                      (Some (emp_id emp)) (Some (sa_date nxt))]
              else []))"

definition check_rest_emp :: "templates \<Rightarrow> Roster \<Rightarrow> Employee \<Rightarrow> Violation list" where
  "check_rest_emp T roster emp =
     (let emp_assignments = emp_assignments_sorted roster (emp_id emp) in
      concat (map (check_rest_pair T emp) (zip emp_assignments (tl emp_assignments))))"

definition check_rest :: "templates \<Rightarrow> SystemContext \<Rightarrow> Roster \<Rightarrow> Violation list" where
  "check_rest T ctx roster = concat (map (check_rest_emp T roster) (employees ctx))"

text \<open>
  Step 5: maximum consecutive working days.  The loop carries \<open>streak\<close>; a violation
  ends it (\<open>break\<close>).
\<close>

fun streak_walk :: "Employee \<Rightarrow> nat \<Rightarrow> (ShiftAssignment \<times> ShiftAssignment) list \<Rightarrow> Violation list" where
  "streak_walk emp streak [] = []"
| "streak_walk emp streak ((prev, nxt) # ps) =
     (let streak' = (if sa_date nxt - sa_date prev = 1 then streak + 1 else 1) in
      if streak' > MAX_CONSECUTIVE_WORKING_DAYS
      then [mk_violation HARD ''MAX_CONSECUTIVE_DAYS_EXCEEDED''
              (MsgConsecutive (emp_name emp) (emp_id emp) streak' (sa_date nxt))
              (Some (emp_id emp)) (Some (sa_date nxt))]
      else streak_walk emp streak' ps)"

definition check_consecutive_emp :: "Roster \<Rightarrow> Employee \<Rightarrow> Violation list" where
  "check_consecutive_emp roster emp =
     (let emp_assignments = emp_assignments_sorted roster (emp_id emp) in
      if emp_assignments = [] then []
      else streak_walk emp 1 (zip emp_assignments (tl emp_assignments)))"

definition check_consecutive :: "SystemContext \<Rightarrow> Roster \<Rightarrow> Violation list" where
  "check_consecutive ctx roster = concat (map (check_consecutive_emp roster) (employees ctx))"

text \<open>Step 6: assignments of unknown employees.\<close>

definition check_unknown_one :: "SystemContext \<Rightarrow> ShiftAssignment \<Rightarrow> Violation list" where
  "check_unknown_one ctx a =
     (if sa_employee_id a \<notin> set (map emp_id (employees ctx))
      then [mk_violation HARD ''UNKNOWN_EMPLOYEE''
              (MsgUnknownEmployee (sa_employee_id a) (sa_date a))
              (Some (sa_employee_id a)) (Some (sa_date a))]
      else [])"

definition check_unknown :: "SystemContext \<Rightarrow> Roster \<Rightarrow> Violation list" where
  "check_unknown ctx roster = concat (map (check_unknown_one ctx) (r_assignments roster))"

definition check_roster :: "templates \<Rightarrow> SystemContext \<Rightarrow> Roster \<Rightarrow> Violation list" where
  "check_roster T ctx roster =
     check_bounds T ctx roster @ check_weekly T ctx roster @ check_min_shift T ctx roster @
     check_rest T ctx roster @ check_consecutive ctx roster @ check_unknown ctx roster"

section \<open>CandidateGeneratorAgent (agents/generator.py)\<close>

definition HOURS_SCALE :: rat where
  "HOURS_SCALE = 2"

text \<open>Python's \<open>round\<close> on a float rounds a half to the even neighbour.\<close>

definition py_round :: "rat \<Rightarrow> int" where
  "py_round q =
     (let f = \<lfloor>q\<rfloor>; d = q - of_int f in
      if d < 1 / 2 then f else if 1 / 2 < d then f + 1 else if even f then f else f + 1)"

definition hours_units :: "rat \<Rightarrow> int" where
  "hours_units h = py_round (h * HOURS_SCALE)"

definition rest_hours_between_codes :: "templates \<Rightarrow> string \<Rightarrow> string \<Rightarrow> rat" where
  "rest_hours_between_codes T code_prev code_next =
     (case T code_prev of
        None \<Rightarrow> 24
      | Some tpl_prev \<Rightarrow>
          (case T code_next of
             None \<Rightarrow> 24
           | Some tpl_next \<Rightarrow>
               of_int ((1440 + minutes_of (tpl_start tpl_next)) - minutes_of (tpl_end tpl_prev)) / 60))"

definition time_le :: "pytime \<Rightarrow> pytime \<Rightarrow> bool" where
  "time_le a b = (hour a < hour b \<or> (hour a = hour b \<and> minute a \<le> minute b))"

definition covers_lunch_window :: "templates \<Rightarrow> string \<Rightarrow> bool" where
  "covers_lunch_window T shift_code =
     (case T shift_code of
        None \<Rightarrow> False
      | Some tpl \<Rightarrow> time_le (tpl_start tpl) (mk_time 14 0) \<and> time_le (mk_time 11 0) (tpl_end tpl))"

definition covers_dinner_window :: "templates \<Rightarrow> string \<Rightarrow> bool" where
  "covers_dinner_window T shift_code =
     (case T shift_code of
        None \<Rightarrow> False
      | Some tpl \<Rightarrow> time_le (tpl_start tpl) (mk_time 21 0) \<and> time_le (mk_time 17 0) (tpl_end tpl))"

text \<open>
  The module-level loop over \<open>SHIFT_TEMPLATES.items()\<close> adds a code to
  \<open>OPENING_SHIFT_CODES\<close> or \<open>CLOSING_SHIFT_CODES\<close> by these two tests.
\<close>

definition opening_test :: "pytime \<Rightarrow> bool" where
  "opening_test start = (hour start < 7 \<or> (hour start = 7 \<and> minute start = 0))"

definition closing_test :: "pytime \<Rightarrow> bool" where
  "closing_test end_t = (hour end_t > 22 \<or> (hour end_t = 22 \<and> minute end_t = 0))"

definition OPENING_SHIFT_CODES :: "templates \<Rightarrow> string set" where
  "OPENING_SHIFT_CODES T =
     {c. case T c of None \<Rightarrow> False | Some tpl \<Rightarrow> opening_test (tpl_start tpl)}"

definition CLOSING_SHIFT_CODES :: "templates \<Rightarrow> string set" where
  "CLOSING_SHIFT_CODES T =
     {c. case T c of None \<Rightarrow> False | Some tpl \<Rightarrow> closing_test (tpl_end tpl)}"

subsection \<open>The solver boundary\<close>

text \<open>
  The CP-SAT model is data: integer variables with their ranges, linear constraints
  (optionally enforced by a literal), and a linear objective.  A variable is named as
  the source names it (\<open>x_e_d_s\<close>, \<open>under_cov_d\<close>, \<open>ot_e_w\<close>, ...).
\<close>

datatype var =
    X nat nat nat
  | UNDER_COV nat
  | OT nat int
  | NO_MGR nat
  | NO_MGR_OPEN nat
  | NO_MGR_CLOSE nat
  | GAP_MGR_LUNCH nat
  | GAP_MGR_DINNER nat

type_synonym linexpr = "(int \<times> var) list \<times> int"

datatype constr =
    LE linexpr linexpr
  | GE linexpr linexpr
  | EQ linexpr linexpr
  | OnlyEnforceIf constr var bool

record cp_model =
  m_vars :: "(var \<times> int \<times> int) list"
  m_constraints :: "constr list"
  m_objective :: linexpr

definition lin_val :: "(var \<Rightarrow> int) \<Rightarrow> linexpr \<Rightarrow> int" where
  "lin_val v e = sum_list (map (\<lambda>(k, x). k * v x) (fst e)) + snd e"

fun holds :: "(var \<Rightarrow> int) \<Rightarrow> constr \<Rightarrow> bool" where
  "holds v (LE a b) = (lin_val v a \<le> lin_val v b)"
| "holds v (GE a b) = (lin_val v a \<ge> lin_val v b)"
| "holds v (EQ a b) = (lin_val v a = lin_val v b)"
| "holds v (OnlyEnforceIf c lit pos) = (if (v lit = 1) = pos then holds v c else True)"

definition in_range :: "(var \<Rightarrow> int) \<Rightarrow> var \<times> int \<times> int \<Rightarrow> bool" where
  "in_range v d = (case d of (x, lo, hi) \<Rightarrow> lo \<le> v x \<and> v x \<le> hi)"

definition feasible :: "cp_model \<Rightarrow> (var \<Rightarrow> int) \<Rightarrow> bool" where
  "feasible m v = (list_all (in_range v) (m_vars m) \<and> list_all (holds v) (m_constraints m))"

datatype solver_status = UNKNOWN | MODEL_INVALID | FEASIBLE | INFEASIBLE | OPTIMAL

type_synonym solver = "cp_model \<Rightarrow> solver_status \<times> (var \<Rightarrow> int)"

definition sum_of :: "var list \<Rightarrow> linexpr" where
  "sum_of vs = (map (Pair 1) vs, 0)"

definition const_of :: "int \<Rightarrow> linexpr" where
  "const_of n = ([], n)"

subsection \<open>Building the model\<close>

definition date_range :: "int \<Rightarrow> int \<Rightarrow> int list" where
  "date_range start_date end_date = [start_date..end_date]"

definition week_index_by_date :: "int \<Rightarrow> int \<Rightarrow> int" where
  "week_index_by_date start_date dt = (dt - start_date) div 7"

definition availability_get :: "SystemContext \<Rightarrow> string \<Rightarrow> int \<Rightarrow> string list" where
  "availability_get ctx eid dt =
     (case map_of (availability ctx) eid of
        None \<Rightarrow> []
      | Some by_date \<Rightarrow> (case map_of by_date dt of None \<Rightarrow> [] | Some codes \<Rightarrow> codes))"

text \<open>
  \<open>allowed_shift_codes[(emp.id, dt)]\<close> is \<open>sorted(set(codes))\<close>, stored when it is not
  empty and read with the default \<open>[]\<close>.
\<close>

definition allowed_shift_codes :: "SystemContext \<Rightarrow> string \<Rightarrow> int \<Rightarrow> string list" where
  "allowed_shift_codes ctx eid dt = sort (remdups (availability_get ctx eid dt))"

definition collect_codes :: "string list \<Rightarrow> string list \<Rightarrow> string list" where
  "collect_codes acc codes = fold (\<lambda>c acc. if c \<in> set acc then acc else acc @ [c]) codes acc"

definition all_shift_codes :: "SystemContext \<Rightarrow> string list" where
  "all_shift_codes ctx =
     fold (\<lambda>entry acc. fold (\<lambda>day acc. collect_codes acc (remdups (snd day))) (snd entry) acc)
       (availability ctx) []"

text \<open>
  \<open>{k: idx for idx, k in enumerate(xs)}[k]\<close>: the position of the last occurrence of
  \<open>k\<close>.  The source subscripts the index dictionaries only with members of the list.
\<close>

fun index_of :: "'a list \<Rightarrow> 'a \<Rightarrow> nat" where
  "index_of [] k = 0"
| "index_of (x # xs) k = (if k \<in> set xs then Suc (index_of xs k) else 0)"

definition emp_index :: "SystemContext \<Rightarrow> Employee \<Rightarrow> nat" where
  "emp_index ctx emp = index_of (map emp_id (employees ctx)) (emp_id emp)"

definition shift_index :: "SystemContext \<Rightarrow> string \<Rightarrow> nat" where
  "shift_index ctx c = index_of (all_shift_codes ctx) c"

definition x_key :: "SystemContext \<Rightarrow> int list \<Rightarrow> Employee \<Rightarrow> int \<Rightarrow> string \<Rightarrow> nat \<times> nat \<times> nat" where
  "x_key ctx dates emp dt c = (emp_index ctx emp, index_of dates dt, shift_index ctx c)"

text \<open>
  The dictionary \<open>x\<close> is the list of its keys in insertion order; the variable stored
  under \<open>(e, d, s)\<close> is \<open>X e d s\<close>.
\<close>

definition x_keys :: "SystemContext \<Rightarrow> int list \<Rightarrow> (nat \<times> nat \<times> nat) list" where
  "x_keys ctx dates =
     concat (map (\<lambda>emp. concat (map (\<lambda>dt.
       map (x_key ctx dates emp dt) (allowed_shift_codes ctx (emp_id emp) dt)) dates))
       (employees ctx))"

definition x_var :: "nat \<times> nat \<times> nat \<Rightarrow> var" where
  "x_var k = (case k of (e, d, s) \<Rightarrow> X e d s)"

definition x_get :: "SystemContext \<Rightarrow> int list \<Rightarrow> nat \<times> nat \<times> nat \<Rightarrow> var option" where
  "x_get ctx dates k = (if k \<in> set (x_keys ctx dates) then Some (x_var k) else None)"

type_synonym piece = "(var \<times> int \<times> int) list \<times> constr list"

text \<open>1) At most one shift per employee per day.\<close>

definition emp_day_vars :: "SystemContext \<Rightarrow> int list \<Rightarrow> Employee \<Rightarrow> int \<Rightarrow> var list" where
  "emp_day_vars ctx dates emp dt =
     concat (map (\<lambda>c. case x_get ctx dates (x_key ctx dates emp dt c) of
                         None \<Rightarrow> [] | Some var \<Rightarrow> [var])
       (allowed_shift_codes ctx (emp_id emp) dt))"

definition at_most_one_pieces :: "SystemContext \<Rightarrow> int list \<Rightarrow> piece list" where
  "at_most_one_pieces ctx dates =
     concat (map (\<lambda>emp. concat (map (\<lambda>dt.
       if allowed_shift_codes ctx (emp_id emp) dt = [] then []
       else (let vars_for_emp_day = emp_day_vars ctx dates emp dt in
             if vars_for_emp_day = [] then []
             else [([], [LE (sum_of vars_for_emp_day) (const_of 1)])])) dates))
       (employees ctx))"

text \<open>2) Contract maximum over the horizon, in half-hour units.\<close>

definition hours_terms ::
  "templates \<Rightarrow> SystemContext \<Rightarrow> int list \<Rightarrow> Employee \<Rightarrow> int list \<Rightarrow> (int \<times> var) list" where
  "hours_terms T ctx dates emp dts =
     concat (map (\<lambda>dt. concat (map (\<lambda>c.
       case T c of
         None \<Rightarrow> []
       | Some tpl \<Rightarrow>
           (case x_get ctx dates (x_key ctx dates emp dt c) of
              None \<Rightarrow> []
            | Some var \<Rightarrow> [(hours_units (tpl_hours tpl), var)]))
       (allowed_shift_codes ctx (emp_id emp) dt))) dts)"

definition max_hours_pieces :: "templates \<Rightarrow> SystemContext \<Rightarrow> int list \<Rightarrow> piece list" where
  "max_hours_pieces T ctx dates =
     concat (map (\<lambda>emp.
       case CONTRACT_HOURS_BOUNDS (contract_type emp) of
         None \<Rightarrow> []
       | Some (min_hours, max_hours) \<Rightarrow>
           (let terms = hours_terms T ctx dates emp dates in
            if terms = [] then []
            else [([], [LE (terms, 0) (const_of (hours_units max_hours))])]))
       (employees ctx))"

text \<open>2b) Weekly maximum with an overtime slack per employee and week.\<close>

definition weekly_pieces :: "templates \<Rightarrow> SystemContext \<Rightarrow> int \<Rightarrow> int list \<Rightarrow> piece list" where
  "weekly_pieces T ctx start_date dates =
     concat (map (\<lambda>emp.
       case WEEKLY_CONTRACT_HOURS_BOUNDS (contract_type emp) of
         None \<Rightarrow> []
       | Some (min_week_hours, max_week_hours) \<Rightarrow>
           (let max_week_units = hours_units max_week_hours;
                week_indices = remdups (map (week_index_by_date start_date) dates) in
            concat (map (\<lambda>w_idx.
              let week_terms = hours_terms T ctx dates emp
                     (filter (\<lambda>dt. week_index_by_date start_date dt = w_idx) dates);
                  ot = OT (emp_index ctx emp) w_idx in
              if week_terms = [] then []
              else [([(ot, 0, max_week_units * 2)],
                     [LE (week_terms, 0) ([(1, ot)], max_week_units)])]) week_indices)))
       (employees ctx))"

text \<open>3) Ten hours of rest between the shifts of consecutive days.\<close>

definition rest_pair_constrs ::
  "templates \<Rightarrow> SystemContext \<Rightarrow> int list \<Rightarrow> Employee \<Rightarrow> int \<Rightarrow> int \<Rightarrow> constr list" where
  "rest_pair_constrs T ctx dates emp day next_day =
     (let today_codes = allowed_shift_codes ctx (emp_id emp) day;
          next_codes = allowed_shift_codes ctx (emp_id emp) next_day in
      if today_codes = [] \<or> next_codes = [] then []
      else concat (map (\<lambda>code_today. concat (map (\<lambda>code_next.
             if rest_hours_between_codes T code_today code_next < MIN_REST_HOURS_BETWEEN_DAYS
             then (case x_get ctx dates (x_key ctx dates emp day code_today) of
                     None \<Rightarrow> []
                   | Some var_today \<Rightarrow>
                       (case x_get ctx dates (x_key ctx dates emp next_day code_next) of
                          None \<Rightarrow> []
                        | Some var_next \<Rightarrow>
                            [LE ([(1, var_today), (1, var_next)], 0) (const_of 1)]))
             else []) next_codes)) today_codes))"

definition rest_pieces :: "templates \<Rightarrow> SystemContext \<Rightarrow> int list \<Rightarrow> piece list" where
  "rest_pieces T ctx dates =
     concat (map (\<lambda>emp. map (\<lambda>p. ([], rest_pair_constrs T ctx dates emp (fst p) (snd p)))
       (zip dates (tl dates))) (employees ctx))"

text \<open>4) Demand and under-coverage per day.\<close>

definition demand_today :: "SystemContext \<Rightarrow> int \<Rightarrow> int" where
  "demand_today ctx dt =
     (case demand_by_date ctx dt of None \<Rightarrow> 0 | Some by_station \<Rightarrow> sum_list (map snd by_station))"

definition day_vars :: "SystemContext \<Rightarrow> int list \<Rightarrow> int \<Rightarrow> var list" where
  "day_vars ctx dates dt = concat (map (\<lambda>emp. emp_day_vars ctx dates emp dt) (employees ctx))"

definition demand_piece :: "SystemContext \<Rightarrow> int list \<Rightarrow> int \<Rightarrow> piece" where
  "demand_piece ctx dates dt =
     (let uc = UNDER_COV (index_of dates dt) in
      ([(uc, 0, int (length (employees ctx)))],
       [if day_vars ctx dates dt \<noteq> [] \<and> demand_today ctx dt > 0
        then GE (map (Pair 1) (day_vars ctx dates dt) @ [(1, uc)], 0) (const_of (demand_today ctx dt))
        else EQ ([(1, uc)], 0) (const_of 0)]))"

definition demand_pieces :: "SystemContext \<Rightarrow> int list \<Rightarrow> piece list" where
  "demand_pieces ctx dates = map (demand_piece ctx dates) dates"

text \<open>5) Soft manager coverage penalties; 6) two managers in the peaks.\<close>

definition manager_ids :: "SystemContext \<Rightarrow> string list" where
  "manager_ids ctx = map emp_id (filter (\<lambda>emp. MANAGER \<in> set (skill_tags emp)) (employees ctx))"

definition manager_vars_where ::
  "(string \<Rightarrow> bool) \<Rightarrow> SystemContext \<Rightarrow> int list \<Rightarrow> int \<Rightarrow> var list" where
  "manager_vars_where P ctx dates dt =
     concat (map (\<lambda>emp.
       if emp_id emp \<notin> set (manager_ids ctx) then []
       else concat (map (\<lambda>c.
              case x_get ctx dates (x_key ctx dates emp dt c) of
                None \<Rightarrow> []
              | Some var \<Rightarrow> if P c then [var] else [])
              (allowed_shift_codes ctx (emp_id emp) dt)))
       (employees ctx))"

definition absence_piece :: "var \<Rightarrow> var list \<Rightarrow> piece" where
  "absence_piece ind vs =
     ([(ind, 0, 1)],
      [OnlyEnforceIf (EQ (sum_of vs) (const_of 0)) ind True,
       OnlyEnforceIf (GE (sum_of vs) (const_of 1)) ind False])"

definition manager_pieces :: "templates \<Rightarrow> SystemContext \<Rightarrow> int list \<Rightarrow> piece list" where
  "manager_pieces T ctx dates =
     (if manager_ids ctx = [] then []
      else concat (map (\<lambda>dt.
        let d_idx = index_of dates dt;
            manager_day_vars = manager_vars_where (\<lambda>c. True) ctx dates dt;
            opening_mgr_day_vars = manager_vars_where (\<lambda>c. c \<in> OPENING_SHIFT_CODES T) ctx dates dt;
            closing_mgr_day_vars = manager_vars_where (\<lambda>c. c \<in> CLOSING_SHIFT_CODES T) ctx dates dt
        in
        if manager_day_vars = [] then []
        else [absence_piece (NO_MGR d_idx) manager_day_vars] @
             (if opening_mgr_day_vars \<noteq> []
              then [absence_piece (NO_MGR_OPEN d_idx) opening_mgr_day_vars] else []) @
             (if closing_mgr_day_vars \<noteq> []
              then [absence_piece (NO_MGR_CLOSE d_idx) closing_mgr_day_vars] else []))
        dates))"

definition gap_piece :: "var \<Rightarrow> var list \<Rightarrow> piece" where
  "gap_piece gap vs = ([(gap, 0, 2)], [GE ([(1, gap)], 0) (map (Pair (- 1)) vs, 2)])"

definition peak_pieces :: "templates \<Rightarrow> SystemContext \<Rightarrow> int list \<Rightarrow> piece list" where
  "peak_pieces T ctx dates =
     (if manager_ids ctx = [] then []
      else concat (map (\<lambda>dt.
        let d_idx = index_of dates dt;
            lunch_mgr_vars = manager_vars_where (covers_lunch_window T) ctx dates dt;
            dinner_mgr_vars = manager_vars_where (covers_dinner_window T) ctx dates dt
        in
        (if lunch_mgr_vars \<noteq> [] then [gap_piece (GAP_MGR_LUNCH d_idx) lunch_mgr_vars] else []) @
        (if dinner_mgr_vars \<noteq> [] then [gap_piece (GAP_MGR_DINNER d_idx) dinner_mgr_vars] else []))
        dates))"

text \<open>
  The objective weighs each penalty variable by its list: under-coverage 1000, weekly
  overtime 1, manager absence 100, opening and closing absence 50, peak gap 10.
\<close>

fun weight :: "var \<Rightarrow> int" where
  "weight (X e d s) = 0"
| "weight (UNDER_COV d) = 1000"
| "weight (OT e w) = 1"
| "weight (NO_MGR d) = 100"
| "weight (NO_MGR_OPEN d) = 50"
| "weight (NO_MGR_CLOSE d) = 50"
| "weight (GAP_MGR_LUNCH d) = 10"
| "weight (GAP_MGR_DINNER d) = 10"

definition pieces :: "templates \<Rightarrow> SystemContext \<Rightarrow> int \<Rightarrow> int list \<Rightarrow> piece list" where
  "pieces T ctx start_date dates =
     at_most_one_pieces ctx dates @ max_hours_pieces T ctx dates @
     weekly_pieces T ctx start_date dates @ rest_pieces T ctx dates @
     demand_pieces ctx dates @ manager_pieces T ctx dates @ peak_pieces T ctx dates"

definition build_model :: "templates \<Rightarrow> SystemContext \<Rightarrow> int \<Rightarrow> int \<Rightarrow> cp_model" where
  "build_model T ctx start_date end_date =
     (let dates = date_range start_date end_date;
          ps = pieces T ctx start_date dates;
          penalties = concat (map fst ps)
      in \<lparr>m_vars = map (\<lambda>k. (x_var k, 0, 1)) (x_keys ctx dates) @ penalties,
          m_constraints = concat (map snd ps),
          m_objective = (map (\<lambda>d. (weight (fst d), fst d)) penalties, 0)\<rparr>)"

subsection \<open>Solving and decoding\<close>

datatype gen_error =
    ValueError_no_employees
  | ValueError_no_shift_codes
  | RuntimeError_solver_failed solver_status

definition decode ::
  "SystemContext \<Rightarrow> string \<Rightarrow> int list \<Rightarrow> (var \<Rightarrow> int) \<Rightarrow> ShiftAssignment list" where
  "decode ctx store_id dates val =
     concat (map (\<lambda>k. case k of (e_idx, d_idx, s_idx) \<Rightarrow>
       if val (X e_idx d_idx s_idx) = 1
       then [\<lparr>sa_employee_id = emp_id (employees ctx ! e_idx), sa_date = dates ! d_idx,
              sa_shift_code = all_shift_codes ctx ! s_idx, sa_station = None,
              sa_store_id = store_id\<rparr>]
       else []) (x_keys ctx dates))"

definition generate_initial_roster ::
  "solver \<Rightarrow> templates \<Rightarrow> SystemContext \<Rightarrow> string \<Rightarrow> int \<Rightarrow> int \<Rightarrow> gen_error + Roster" where
  "generate_initial_roster solve T ctx store_id start_date end_date =
     (if employees ctx = [] then Inl ValueError_no_employees
      else if all_shift_codes ctx = [] then Inl ValueError_no_shift_codes
      else (case solve (build_model T ctx start_date end_date) of (status, val) \<Rightarrow>
              if status \<noteq> OPTIMAL \<and> status \<noteq> FEASIBLE
              then Inl (RuntimeError_solver_failed status)
              else Inr \<lparr>r_store_id = store_id, r_start_date = start_date,
                        r_end_date = end_date,
                        r_assignments =
                          decode ctx store_id (date_range start_date end_date) val\<rparr>))"

section \<open>ConflictResolutionAgent (agents/conflict_resolution.py)\<close>

text \<open>
  \<open>assignments = list(roster.assignments)\<close> copies the list, not the ShiftAssignment
  objects: both lists refer to the same objects, and \<open>a.employee_id = candidate_id\<close>
  writes to the object.  The store of these objects is the list \<open>cells\<close>, object
  number \<open>i\<close> of the roster at position \<open>i\<close> (each position of a roster holds an object
  of its own); a reference is a position.  After the call the returned roster and the
  argument roster both show the final contents of the cells.
\<close>

datatype log_line =
    LogNoOverloaded nat
  | LogReassigning string int string string
  | LogNoFeasible nat

record rb_state =
  rb_cells :: "ShiftAssignment list"
  rb_hours :: "string \<rightharpoonup> rat"
  rb_logs :: "log_line list"
  rb_progress :: bool

definition compute_hours_by_employee :: "templates \<Rightarrow> ShiftAssignment list \<Rightarrow> (string \<rightharpoonup> rat)" where
  "compute_hours_by_employee T asg =
     fold (\<lambda>a m. m(sa_employee_id a \<mapsto>
                    dict_get m (sa_employee_id a) 0 + SHIFT_HOURS_get T (sa_shift_code a)))
       asg Map.empty"

definition assigned_on_date :: "ShiftAssignment list \<Rightarrow> int \<Rightarrow> string set" where
  "assigned_on_date asg date0 = set (map sa_employee_id (filter (\<lambda>a. sa_date a = date0) asg))"

text \<open>
  One pass of the candidate loop for one employee: \<open>None\<close> where the loop continues,
  \<open>Some True\<close> for \<open>under_min\<close>, \<open>Some False\<close> for \<open>normal\<close>.
\<close>

definition replacement_class ::
  "SystemContext \<Rightarrow> ShiftAssignment list \<Rightarrow> (string \<rightharpoonup> rat) \<Rightarrow> int \<Rightarrow> string \<Rightarrow> rat \<Rightarrow> string
     \<Rightarrow> Employee \<Rightarrow> bool option" where
  "replacement_class ctx asg hrs date0 shift_code shift_hours exclude_emp_id emp =
     (if emp_id emp = exclude_emp_id then None
      else if shift_code \<notin> set (availability_get ctx (emp_id emp) date0) then None
      else if emp_id emp \<in> assigned_on_date asg date0 then None
      else (case CONTRACT_HOURS_BOUNDS (contract_type emp) of
              None \<Rightarrow> None
            | Some (min_h, max_h) \<Rightarrow>
                (let current_h = dict_get hrs (emp_id emp) 0 in
                 if current_h + shift_hours > max_h then None
                 else Some (current_h < min_h))))"

definition find_replacement_employee ::
  "SystemContext \<Rightarrow> ShiftAssignment list \<Rightarrow> (string \<rightharpoonup> rat) \<Rightarrow> int \<Rightarrow> string \<Rightarrow> rat \<Rightarrow> string
     \<Rightarrow> string option" where
  "find_replacement_employee ctx asg hrs date0 shift_code shift_hours exclude_emp_id =
     (let cls = replacement_class ctx asg hrs date0 shift_code shift_hours exclude_emp_id;
          under_min = map emp_id (filter (\<lambda>emp. cls emp = Some True) (employees ctx));
          normal = map emp_id (filter (\<lambda>emp. cls emp = Some False) (employees ctx))
      in case under_min of
           u # us \<Rightarrow> Some u
         | [] \<Rightarrow> (case normal of n # ns \<Rightarrow> Some n | [] \<Rightarrow> None))"

text \<open>
  The employee's assignments, latest date first (\<open>sort(key=date, reverse=True)\<close> is
  stable), as positions in the store.
\<close>

definition emp_assignment_refs :: "ShiftAssignment list \<Rightarrow> string \<Rightarrow> nat list" where
  "emp_assignment_refs cells eid =
     sort_key (\<lambda>i. - sa_date (cells ! i))
       (filter (\<lambda>i. sa_employee_id (cells ! i) = eid) [0..<length cells])"

fun first_reassignment ::
  "templates \<Rightarrow> SystemContext \<Rightarrow> ShiftAssignment list \<Rightarrow> (string \<rightharpoonup> rat) \<Rightarrow> string \<Rightarrow> nat list
     \<Rightarrow> (nat \<times> string) option" where
  "first_reassignment T ctx cells hrs overloaded_id [] = None"
| "first_reassignment T ctx cells hrs overloaded_id (i # refs) =
     (let a = cells ! i;
          shift_hours = SHIFT_HOURS_get T (sa_shift_code a)
      in case find_replacement_employee ctx cells hrs (sa_date a) (sa_shift_code a) shift_hours
                overloaded_id of
           None \<Rightarrow> first_reassignment T ctx cells hrs overloaded_id refs
         | Some candidate_id \<Rightarrow> Some (i, candidate_id))"

text \<open>
  The body of \<open>for overloaded_id in overloaded_ids\<close>; \<open>emp\<close> is the entry of
  \<open>ctx.employees\<close> under that id.  An overloaded id has an entry in \<open>hours_by_emp\<close>, so
  \<open>hours_by_emp[overloaded_id] -= shift_hours\<close> finds its key.
\<close>

definition fix_overloaded :: "templates \<Rightarrow> SystemContext \<Rightarrow> Employee \<Rightarrow> rb_state \<Rightarrow> rb_state" where
  "fix_overloaded T ctx emp st =
     (case CONTRACT_HOURS_BOUNDS (contract_type emp) of
        None \<Rightarrow> st
      | Some (min_h, max_h) \<Rightarrow>
          (let overloaded_id = emp_id emp;
               current_h = dict_get (rb_hours st) overloaded_id 0
           in if current_h \<le> max_h then st
              else (case first_reassignment T ctx (rb_cells st) (rb_hours st) overloaded_id
                           (emp_assignment_refs (rb_cells st) overloaded_id) of
                      None \<Rightarrow> st
                    | Some (i, candidate_id) \<Rightarrow>
                        (let a = rb_cells st ! i;
                             shift_hours = SHIFT_HOURS_get T (sa_shift_code a);
                             h1 = (rb_hours st)(overloaded_id \<mapsto>
                                     dict_get (rb_hours st) overloaded_id 0 - shift_hours);
                             h2 = h1(candidate_id \<mapsto> dict_get h1 candidate_id 0 + shift_hours)
                         in \<lparr>rb_cells = (rb_cells st)[i := a\<lparr>sa_employee_id := candidate_id\<rparr>],
                             rb_hours = h2,
                             rb_logs = rb_logs st @
                               [LogReassigning (sa_shift_code a) (sa_date a) overloaded_id
                                  candidate_id],
                             rb_progress = True\<rparr>))))"

definition overloaded_employees :: "SystemContext \<Rightarrow> (string \<rightharpoonup> rat) \<Rightarrow> Employee list" where
  "overloaded_employees ctx hrs =
     filter (\<lambda>emp. case CONTRACT_HOURS_BOUNDS (contract_type emp) of
                     None \<Rightarrow> False
                   | Some (min_h, max_h) \<Rightarrow> dict_get hrs (emp_id emp) 0 > max_h)
       (employees ctx)"

fun rebalance_loop ::
  "templates \<Rightarrow> SystemContext \<Rightarrow> nat \<Rightarrow> nat \<Rightarrow> ShiftAssignment list \<Rightarrow> log_line list
     \<Rightarrow> ShiftAssignment list \<times> log_line list" where
  "rebalance_loop T ctx iteration 0 cells logs = (cells, logs)"
| "rebalance_loop T ctx iteration (Suc remaining) cells logs =
     (let hours_by_emp = compute_hours_by_employee T cells;
          overloaded = overloaded_employees ctx hours_by_emp
      in if overloaded = [] then (cells, logs @ [LogNoOverloaded iteration])
         else (let st = fold (fix_overloaded T ctx) overloaded
                          \<lparr>rb_cells = cells, rb_hours = hours_by_emp, rb_logs = logs,
                           rb_progress = False\<rparr>
               in if \<not> rb_progress st
                  then (rb_cells st, rb_logs st @ [LogNoFeasible iteration])
                  else rebalance_loop T ctx (Suc iteration) remaining (rb_cells st) (rb_logs st)))"

definition final_cells :: "templates \<Rightarrow> int \<Rightarrow> SystemContext \<Rightarrow> Roster \<Rightarrow> ShiftAssignment list" where
  "final_cells T max_iterations ctx roster =
     fst (rebalance_loop T ctx 0 (nat max_iterations) (r_assignments roster) [])"

definition rebalance_hours ::
  "templates \<Rightarrow> int \<Rightarrow> SystemContext \<Rightarrow> Roster \<Rightarrow> Roster \<times> log_line list" where
  "rebalance_hours T max_iterations ctx roster =
     (\<lparr>r_store_id = r_store_id roster, r_start_date = r_start_date roster,
       r_end_date = r_end_date roster,
       r_assignments = final_cells T max_iterations ctx roster\<rparr>,
      snd (rebalance_loop T ctx 0 (nat max_iterations) (r_assignments roster) []))"

text \<open>The argument roster as the caller sees it once \<open>rebalance_hours\<close> has returned.\<close>

definition input_roster_after :: "templates \<Rightarrow> int \<Rightarrow> SystemContext \<Rightarrow> Roster \<Rightarrow> Roster" where
  "input_roster_after T max_iterations ctx roster =
     roster\<lparr>r_assignments := final_cells T max_iterations ctx roster\<rparr>"

section \<open>Notions of the specification\<close>




fun streak_from :: "nat \<Rightarrow> int list \<Rightarrow> nat \<Rightarrow> nat" where
  "streak_from s ds 0 = s"
| "streak_from s ds (Suc i) = (if ds ! Suc i - ds ! i = 1 then streak_from s ds i + 1 else 1)"

definition streak_at :: "int list \<Rightarrow> nat \<Rightarrow> nat" where
  "streak_at ds i = streak_from 1 ds i"

definition emp_dates :: "Roster \<Rightarrow> string \<Rightarrow> int list" where
  "emp_dates roster eid = map sa_date (emp_assignments_sorted roster eid)"

definition consecutive_violation :: "Employee \<Rightarrow> nat \<Rightarrow> int \<Rightarrow> Violation" where
  "consecutive_violation emp streak d =
     mk_violation HARD ''MAX_CONSECUTIVE_DAYS_EXCEEDED''
       (MsgConsecutive (emp_name emp) (emp_id emp) streak d) (Some (emp_id emp)) (Some d)"

text \<open>
  The slot of an assignment (all of it but the employee), and the hours of an employee
  aggregated over a list of assignments: the catalog duration of each assignment, 8.0
  hours for a code the catalog does not know.
\<close>

definition slot_of :: "ShiftAssignment \<Rightarrow> int \<times> string \<times> SkillTag option \<times> string" where
  "slot_of a = (sa_date a, sa_shift_code a, sa_station a, sa_store_id a)"






section \<open>Concrete inputs\<close>

text \<open>
  A template table as the spreadsheet can give it: the defaults and a row
  \<open>C | 14:00 - 22:30 | 8.5\<close>.
\<close>

definition late_close_templates :: templates where
  "late_close_templates =
     DEFAULT_SHIFT_TEMPLATES(''C'' \<mapsto> mk_tpl (mk_time 14 0) (mk_time 22 30) (17 / 2))"

definition emp_casual :: Employee where
  "emp_casual = \<lparr>emp_id = ''1'', emp_name = ''Ann'', contract_type = CASUAL, skill_tags = [COUNTER]\<rparr>"

definition emp_full :: Employee where
  "emp_full = \<lparr>emp_id = ''2'', emp_name = ''Bob'', contract_type = FULL_TIME, skill_tags = [KITCHEN]\<rparr>"

definition mk_sa :: "string \<Rightarrow> int \<Rightarrow> string \<Rightarrow> ShiftAssignment" where
  "mk_sa e d c = \<lparr>sa_employee_id = e, sa_date = d, sa_shift_code = c, sa_station = None,
                  sa_store_id = ''store_1''\<rparr>"

definition mk_roster :: "int \<Rightarrow> int \<Rightarrow> ShiftAssignment list \<Rightarrow> Roster" where
  "mk_roster s e asg = \<lparr>r_store_id = ''store_1'', r_start_date = s, r_end_date = e, r_assignments = asg\<rparr>"

definition mk_ctx :: "Employee list \<Rightarrow> (string \<times> (int \<times> string list) list) list \<Rightarrow> (int \<rightharpoonup> (SkillTag \<times> int) list) \<Rightarrow> SystemContext" where
  "mk_ctx es av dm = \<lparr>employees = es, availability = av, demand_by_date = dm,
                       manager_template_by_weekday = Map.empty\<rparr>"

definition ctx_two :: SystemContext where
  "ctx_two = mk_ctx [emp_casual, emp_full] [] Map.empty"



definition roster_eight_days :: Roster where
  "roster_eight_days = mk_roster 0 13
     [mk_sa ''1'' 3 ''S'', mk_sa ''1'' 0 ''S'', mk_sa ''1'' 1 ''S'', mk_sa ''1'' 2 ''S'',
      mk_sa ''1'' 4 ''S'', mk_sa ''1'' 5 ''S'', mk_sa ''1'' 6 ''S'', mk_sa ''1'' 7 ''S'']"

text \<open>
  A roster for the resolver: employee 1 (casual, at most 48 hours) holds six S shifts,
  51 hours; employee 2 is free and available for S on day 5.
\<close>

definition ctx_rebalance :: SystemContext where
  "ctx_rebalance = mk_ctx [emp_casual, emp_full] [(''2'', [(5, [''S''])])] Map.empty"

definition roster_overloaded :: Roster where
  "roster_overloaded = mk_roster 0 13
     [mk_sa ''1'' 0 ''S'', mk_sa ''1'' 1 ''S'', mk_sa ''1'' 2 ''S'', mk_sa ''1'' 3 ''S'',
      mk_sa ''1'' 4 ''S'', mk_sa ''1'' 5 ''S'']"

definition roster_rebalanced :: Roster where
  "roster_rebalanced = mk_roster 0 13
     [mk_sa ''1'' 0 ''S'', mk_sa ''1'' 1 ''S'', mk_sa ''1'' 2 ''S'', mk_sa ''1'' 3 ''S'',
      mk_sa ''1'' 4 ''S'', mk_sa ''2'' 5 ''S'']"





definition ctx_small :: SystemContext where
  "ctx_small = mk_ctx [emp_casual, emp_full]
     [(''1'', [(0, [''2F'']), (1, [''S'', ''2F''])]), (''2'', [(0, [''S''])])]
     (map_of [(0, [(COUNTER, 1), (KITCHEN, 1)]), (1, [(COUNTER, 1)])])"

definition val_small :: "var \<Rightarrow> int" where
  "val_small v = (case v of X e d s \<Rightarrow> if (e, d, s) \<in> {(0, 0, 0), (0, 1, 0), (1, 0, 1)} then 1 else 0
                  | _ \<Rightarrow> 0)"

definition solver_small :: solver where
  "solver_small m = (FEASIBLE, val_small)"


definition val_idle :: "var \<Rightarrow> int" where
  "val_idle v = 0"

definition solver_infeasible :: solver where
  "solver_infeasible m = (INFEASIBLE, val_idle)"


text \<open>
  A template table with a row \<open>Q | 08:00 - 16:15 | 8.25\<close>, and a casual employee
  available for \<open>Q\<close> on six days.
\<close>

definition quarter_hour_templates :: templates where
  "quarter_hour_templates =
     DEFAULT_SHIFT_TEMPLATES(''Q'' \<mapsto> mk_tpl (mk_time 8 0) (mk_time 16 15) (33 / 4))"

definition ctx_quarter_hour :: SystemContext where
  "ctx_quarter_hour = mk_ctx [emp_casual]
     [(''1'', [(0, [''Q'']), (1, [''Q'']), (2, [''Q'']), (3, [''Q'']), (4, [''Q'']), (5, [''Q''])])]
     (map_of [(0, [(COUNTER, 1)]), (1, [(COUNTER, 1)]), (2, [(COUNTER, 1)]), (3, [(COUNTER, 1)]),
              (4, [(COUNTER, 1)]), (5, [(COUNTER, 1)])])"

definition val_quarter_hour :: "var \<Rightarrow> int" where
  "val_quarter_hour v = (case v of X e d s \<Rightarrow> 1 | OT e w \<Rightarrow> 48 | _ \<Rightarrow> 0)"

definition roster_quarter_hour :: Roster where
  "roster_quarter_hour = mk_roster 0 5
     [mk_sa ''1'' 0 ''Q'', mk_sa ''1'' 1 ''Q'', mk_sa ''1'' 2 ''Q'', mk_sa ''1'' 3 ''Q'',
      mk_sa ''1'' 4 ''Q'', mk_sa ''1'' 5 ''Q'']"

section \<open>Opening and closing shift codes\<close>

lemma opening_codes_iff:
  "c \<in> OPENING_SHIFT_CODES T \<longleftrightarrow>
     (\<exists>tpl. T c = Some tpl \<and> time_le (tpl_start tpl) (mk_time 7 0))"
  by (auto simp: OPENING_SHIFT_CODES_def opening_test_def time_le_def mk_time_def
      split: option.splits)

text \<open>
  C5.  A code is an opening code iff its template starts at or before 07:00 (the lemma
  above), and should be a closing code iff its template ends at or after 22:00.  The
  closing test of the source accepts 22:00 and every time from 23:00 on, and misses
  22:01 to 22:59: the template \<open>C\<close> ends at 22:30, at or after 22:00, and \<open>C\<close> is
  not in \<open>CLOSING_SHIFT_CODES\<close>.
\<close>

theorem closing_misses_2230:
  "late_close_templates ''C'' = Some (mk_tpl (mk_time 14 0) (mk_time 22 30) (17 / 2)) \<and>
   time_le (mk_time 22 0) (tpl_end (mk_tpl (mk_time 14 0) (mk_time 22 30) (17 / 2))) \<and>
   ''C'' \<notin> CLOSING_SHIFT_CODES late_close_templates"
  by (simp add: late_close_templates_def CLOSING_SHIFT_CODES_def closing_test_def time_le_def
      mk_time_def mk_tpl_def)

section \<open>The compliance oracle\<close>



lemma filter_concat_map_one:
  assumes "distinct (map key es)" "e \<in> set es"
    and "\<And>e'. e' \<in> set es \<Longrightarrow> key e' \<noteq> key e \<Longrightarrow> filter P (f e') = []"
  shows "filter P (concat (map f es)) = filter P (f e)"
  using assms
proof (induction es)
  case Nil
  then show ?case by simp
next
  case (Cons x es)
  show ?case
  proof (cases "x = e")
    case True
    have "filter P (concat (map f es)) = []"
    proof -
      have "\<And>e'. e' \<in> set es \<Longrightarrow> filter P (f e') = []"
        using Cons.prems True by (metis distinct.simps(2) image_eqI list.set_intros(2) list.simps(9) set_map)
      then show ?thesis by (induction es) auto
    qed
    with True show ?thesis by simp
  next
    case False
    then have "e \<in> set es" using Cons.prems by simp
    moreover have "key x \<noteq> key e" using Cons.prems False \<open>e \<in> set es\<close> by force
    ultimately show ?thesis using Cons by simp
  qed
qed

lemma codes_bounds:
  "v \<in> set (check_bounds T ctx roster) \<Longrightarrow>
     v_code v = ''MIN_HOURS_NOT_MET'' \<or> v_code v = ''MAX_HOURS_EXCEEDED''"
  by (auto simp: check_bounds_def check_bounds_emp_def mk_violation_def Let_def
      split: option.splits if_splits)

lemma codes_weekly:
  "v \<in> set (check_weekly T ctx roster) \<Longrightarrow>
     v_code v = ''WEEKLY_MIN_HOURS_NOT_MET'' \<or> v_code v = ''WEEKLY_MAX_HOURS_EXCEEDED''"
  by (auto simp: check_weekly_def check_weekly_emp_def check_week_def mk_violation_def
      split: option.splits if_splits)

lemma codes_min_shift:
  "v \<in> set (check_min_shift T ctx roster) \<Longrightarrow> v_code v = ''MIN_SHIFT_LENGTH_CASUAL''"
  by (auto simp: check_min_shift_def check_min_shift_one_def mk_violation_def
      split: option.splits if_splits)

lemma codes_rest:
  "v \<in> set (check_rest T ctx roster) \<Longrightarrow> v_code v = ''INSUFFICIENT_REST''"
  by (auto simp: check_rest_def check_rest_emp_def check_rest_pair_def mk_violation_def Let_def
      split: option.splits if_splits)

lemma codes_streak_walk:
  "v \<in> set (streak_walk emp s ps) \<Longrightarrow>
     v_code v = ''MAX_CONSECUTIVE_DAYS_EXCEEDED'' \<and> v_employee_id v = Some (emp_id emp)"
  by (induction emp s ps rule: streak_walk.induct)
     (auto simp: mk_violation_def Let_def split: if_splits)


lemma codes_unknown:
  "v \<in> set (check_unknown ctx roster) \<Longrightarrow> v_code v = ''UNKNOWN_EMPLOYEE''"
  by (auto simp: check_unknown_def check_unknown_one_def mk_violation_def split: if_splits)

lemma filter_empty_by_code:
  assumes "\<And>v. v \<in> set xs \<Longrightarrow> \<not> P v"
  shows "filter P xs = []"
  using assms by (induction xs) auto








lemma streak_from_shift:
  "streak_from s (a # b # ds) (Suc i) = streak_from (if b - a = 1 then s + 1 else 1) (b # ds) i"
  by (induction i) auto

lemma streak_walk_none:
  assumes "\<And>i. 0 < i \<Longrightarrow> i < length as \<Longrightarrow> streak_from s (map sa_date as) i \<le> 6"
  shows "streak_walk emp s (zip as (tl as)) = []"
  using assms
proof (induction as arbitrary: s)
  case Nil
  then show ?case by simp
next
  case (Cons a as)
  show ?case
  proof (cases as)
    case Nil
    then show ?thesis by simp
  next
    case (Cons b bs)
    let ?s' = "if sa_date b - sa_date a = 1 then s + 1 else 1"
    have s1: "?s' \<le> 6" using Cons.prems [of "Suc 0"] Cons by (simp split: if_splits)
    have "\<And>i. 0 < i \<Longrightarrow> i < length as \<Longrightarrow> streak_from ?s' (map sa_date as) i \<le> 6"
      using Cons.prems [of "Suc i" for i] Cons by (simp add: streak_from_shift del: streak_from.simps)
    then have "streak_walk emp ?s' (zip as (tl as)) = []" by (rule Cons.IH)
    then show ?thesis using s1 Cons by (simp add: MAX_CONSECUTIVE_WORKING_DAYS_def Let_def)
  qed
qed

lemma streak_walk_first:
  assumes "0 < k" "k < length as" "streak_from s (map sa_date as) k > 6"
    and "\<And>i. 0 < i \<Longrightarrow> i < k \<Longrightarrow> streak_from s (map sa_date as) i \<le> 6"
  shows "streak_walk emp s (zip as (tl as)) =
           [consecutive_violation emp (streak_from s (map sa_date as) k) (map sa_date as ! k)]"
  using assms
proof (induction as arbitrary: s k)
  case Nil
  then show ?case by simp
next
  case (Cons a as)
  show ?case
  proof (cases as)
    case Nil
    then show ?thesis using Cons.prems by simp
  next
    case as: (Cons b bs)
    let ?s' = "if sa_date b - sa_date a = 1 then s + 1 else 1"
    obtain j where k: "k = Suc j" using Cons.prems(1) by (cases k) auto
    show ?thesis
    proof (cases j)
      case 0
      then show ?thesis using Cons.prems k as
        by (auto simp: MAX_CONSECUTIVE_WORKING_DAYS_def Let_def consecutive_violation_def)
    next
      case (Suc j')
      have s1: "?s' \<le> 6" using Cons.prems(4) [of "Suc 0"] as k Suc by (simp split: if_splits)
      have a1: "0 < j" "j < length as" using Suc Cons.prems(2) k by auto
      have a2: "streak_from ?s' (map sa_date as) j > 6"
        using Cons.prems(3) k as by (simp add: streak_from_shift del: streak_from.simps)
      have a3: "\<And>i. 0 < i \<Longrightarrow> i < j \<Longrightarrow> streak_from ?s' (map sa_date as) i \<le> 6"
        using Cons.prems(4) [of "Suc i" for i] k as by (simp add: streak_from_shift del: streak_from.simps)
      have "streak_walk emp ?s' (zip as (tl as)) =
           [consecutive_violation emp (streak_from ?s' (map sa_date as) j) (map sa_date as ! j)]"
        by (rule Cons.IH [OF a1 a2 a3])
      then show ?thesis using s1 as k
        by (simp add: MAX_CONSECUTIVE_WORKING_DAYS_def Let_def streak_from_shift del: streak_from.simps)
    qed
  qed
qed

lemma filter_id_all: "(\<And>v. v \<in> set xs \<Longrightarrow> P v) \<Longrightarrow> filter P xs = xs"
  by (induction xs) auto

lemma check_consecutive_emp_fields:
  "v \<in> set (check_consecutive_emp roster emp) \<Longrightarrow>
     v_code v = ''MAX_CONSECUTIVE_DAYS_EXCEEDED'' \<and> v_employee_id v = Some (emp_id emp)"
  by (auto simp: check_consecutive_emp_def Let_def dest: codes_streak_walk split: if_splits)

lemma consecutive_of_employee:
  assumes d: "distinct (map emp_id (employees ctx))" and e: "emp \<in> set (employees ctx)"
  shows "filter (\<lambda>v. v_code v = ''MAX_CONSECUTIVE_DAYS_EXCEEDED'' \<and>
                     v_employee_id v = Some (emp_id emp)) (check_roster T ctx roster) =
         check_consecutive_emp roster emp"
proof -
  let ?P = "\<lambda>v. v_code v = ''MAX_CONSECUTIVE_DAYS_EXCEEDED'' \<and> v_employee_id v = Some (emp_id emp)"
  have 1: "filter ?P (check_bounds T ctx roster) = []"
    by (rule filter_empty_by_code) (use codes_bounds in fastforce)
  have 2: "filter ?P (check_weekly T ctx roster) = []"
    by (rule filter_empty_by_code) (use codes_weekly in fastforce)
  have 3: "filter ?P (check_min_shift T ctx roster) = []"
    by (rule filter_empty_by_code) (use codes_min_shift in fastforce)
  have 4: "filter ?P (check_rest T ctx roster) = []"
    by (rule filter_empty_by_code) (use codes_rest in fastforce)
  have 5: "filter ?P (check_unknown ctx roster) = []"
    by (rule filter_empty_by_code) (use codes_unknown in fastforce)
  have "filter ?P (check_roster T ctx roster) = filter ?P (check_consecutive ctx roster)"
    by (simp add: check_roster_def 1 2 3 4 5)
  also have "\<dots> = filter ?P (check_consecutive_emp roster emp)"
    unfolding check_consecutive_def
  proof (rule filter_concat_map_one [where key = emp_id, OF d e])
    fix e' assume "e' \<in> set (employees ctx)" "emp_id e' \<noteq> emp_id emp"
    then show "filter ?P (check_consecutive_emp roster e') = []"
      by (auto intro!: filter_empty_by_code dest: check_consecutive_emp_fields)
  qed
  also have "\<dots> = check_consecutive_emp roster emp"
    by (rule filter_id_all) (use check_consecutive_emp_fields in blast)
  finally show ?thesis .
qed

lemma streak_from_run:
  "i < n \<Longrightarrow> streak_from 1 (map (\<lambda>j. d + int j) [0..<n]) i = i + 1"
  by (induction i) auto

text \<open>
  C7.  For an employee of the context, with its assignments sorted by date and the
  streak reset to 1 at every gap other than one day: if no streak exceeds 6 there is no
  \<open>MAX_CONSECUTIVE_DAYS_EXCEEDED\<close> violation for the employee; otherwise there is
  exactly one, HARD, dated the first day at which the streak exceeds 6, whatever
  follows that day; an employee assigned exactly seven consecutive days has exactly one,
  at the seventh day with streak 7.
\<close>

theorem consecutive_days_first_excess:
  assumes "distinct (map emp_id (employees ctx))" and "emp \<in> set (employees ctx)"
  shows "((\<forall>i<length (emp_dates roster (emp_id emp)).
             streak_at (emp_dates roster (emp_id emp)) i \<le> MAX_CONSECUTIVE_WORKING_DAYS) \<longrightarrow>
          filter (\<lambda>v. v_code v = ''MAX_CONSECUTIVE_DAYS_EXCEEDED'' \<and>
                      v_employee_id v = Some (emp_id emp)) (check_roster T ctx roster) = []) \<and>
         (\<forall>k<length (emp_dates roster (emp_id emp)).
            MAX_CONSECUTIVE_WORKING_DAYS < streak_at (emp_dates roster (emp_id emp)) k \<and>
            (\<forall>i<k. streak_at (emp_dates roster (emp_id emp)) i \<le> MAX_CONSECUTIVE_WORKING_DAYS) \<longrightarrow>
            filter (\<lambda>v. v_code v = ''MAX_CONSECUTIVE_DAYS_EXCEEDED'' \<and>
                        v_employee_id v = Some (emp_id emp)) (check_roster T ctx roster) =
            [consecutive_violation emp (streak_at (emp_dates roster (emp_id emp)) k)
               (emp_dates roster (emp_id emp) ! k)]) \<and>
         (\<forall>d. emp_dates roster (emp_id emp) = [d, d + 1, d + 2, d + 3, d + 4, d + 5, d + 6] \<longrightarrow>
            filter (\<lambda>v. v_code v = ''MAX_CONSECUTIVE_DAYS_EXCEEDED'' \<and>
                        v_employee_id v = Some (emp_id emp)) (check_roster T ctx roster) =
            [consecutive_violation emp 7 (d + 6)])"
proof -
  let ?as = "emp_assignments_sorted roster (emp_id emp)"
  let ?ds = "emp_dates roster (emp_id emp)"
  let ?F = "filter (\<lambda>v. v_code v = ''MAX_CONSECUTIVE_DAYS_EXCEEDED'' \<and>
                      v_employee_id v = Some (emp_id emp)) (check_roster T ctx roster)"
  have F: "?F = (if ?as = [] then [] else streak_walk emp 1 (zip ?as (tl ?as)))"
    unfolding consecutive_of_employee [OF assms] check_consecutive_emp_def Let_def ..
  have ds: "?ds = map sa_date ?as" by (simp add: emp_dates_def)
  have none: "?F = []" if "\<forall>i<length ?ds. streak_at ?ds i \<le> MAX_CONSECUTIVE_WORKING_DAYS"
  proof -
    have "streak_walk emp 1 (zip ?as (tl ?as)) = []"
      by (rule streak_walk_none)
         (use that in \<open>simp add: ds streak_at_def MAX_CONSECUTIVE_WORKING_DAYS_def\<close>)
    then show ?thesis by (simp add: F)
  qed
  have first: "?F = [consecutive_violation emp (streak_at ?ds k) (?ds ! k)]"
    if k: "k < length ?ds" and ex: "MAX_CONSECUTIVE_WORKING_DAYS < streak_at ?ds k"
      and le: "\<forall>i<k. streak_at ?ds i \<le> MAX_CONSECUTIVE_WORKING_DAYS" for k
  proof -
    have k0: "0 < k"
      using ex by (cases k) (auto simp: streak_at_def MAX_CONSECUTIVE_WORKING_DAYS_def)
    have ne: "?as \<noteq> []" using k ds by auto
    have "streak_walk emp 1 (zip ?as (tl ?as)) =
            [consecutive_violation emp (streak_from 1 (map sa_date ?as) k) (map sa_date ?as ! k)]"
      by (rule streak_walk_first [OF k0])
         (use k ex le in \<open>simp_all add: ds streak_at_def MAX_CONSECUTIVE_WORKING_DAYS_def\<close>)
    then show ?thesis using ne by (simp add: F ds streak_at_def)
  qed
  have seven: "?F = [consecutive_violation emp 7 (d + 6)]"
    if run: "?ds = [d, d + 1, d + 2, d + 3, d + 4, d + 5, d + 6]" for d
  proof -
    have run': "?ds = map (\<lambda>j. d + int j) [0..<7]"
    proof -
      have "[0..<7] = [0, 1, 2, 3, 4, 5, 6::nat]" by code_simp
      then show ?thesis by (simp add: run)
    qed
    have s: "streak_at ?ds i = i + 1" if "i < 7" for i
      unfolding streak_at_def run' using that by (rule streak_from_run)
    have "?F = [consecutive_violation emp (streak_at ?ds 6) (?ds ! 6)]"
      by (rule first) (simp_all add: s MAX_CONSECUTIVE_WORKING_DAYS_def, simp add: run)
    then show ?thesis by (simp add: s) (simp add: run)
  qed
  show ?thesis using none first seven by blast
qed

lemmas input_defs = emp_casual_def emp_full_def mk_sa_def mk_roster_def mk_ctx_def
  DEFAULT_SHIFT_TEMPLATES_def mk_tpl_def mk_time_def





theorem consecutive_days_first_excess_witness:
  "emp_dates roster_eight_days ''1'' = [0, 1, 2, 3, 4, 5, 6, 7] \<and>
   filter (\<lambda>v. v_code v = ''MAX_CONSECUTIVE_DAYS_EXCEEDED'' \<and> v_employee_id v = Some ''1'')
     (check_roster DEFAULT_SHIFT_TEMPLATES ctx_two roster_eight_days) =
     [consecutive_violation emp_casual 7 6]"
proof -
  have ds: "emp_dates roster_eight_days ''1'' = [0, 1, 2, 3, 4, 5, 6, 7]"
    by (simp add: emp_dates_def emp_assignments_sorted_def roster_eight_days_def input_defs)
  have d: "distinct (map emp_id (employees ctx_two))" and e: "emp_casual \<in> set (employees ctx_two)"
    by (simp_all add: ctx_two_def input_defs)
  have i: "emp_id emp_casual = ''1''" by (simp add: emp_casual_def)
  have s: "streak_at [0, 1, 2, 3, 4, 5, 6, 7] 6 = 7"
    by (simp add: streak_at_def eval_nat_numeral)
  have le: "\<forall>i<6. streak_at [0, 1, 2, 3, 4, 5, 6, 7] i \<le> MAX_CONSECUTIVE_WORKING_DAYS"
    by (simp add: streak_at_def MAX_CONSECUTIVE_WORKING_DAYS_def eval_nat_numeral less_Suc_eq)
  show ?thesis
    using consecutive_days_first_excess [OF d e, of roster_eight_days DEFAULT_SHIFT_TEMPLATES,
        THEN conjunct2, THEN conjunct1, rule_format, of 6] ds s le
    by (simp add: i MAX_CONSECUTIVE_WORKING_DAYS_def)
qed

section \<open>The conflict resolver\<close>

lemma slot_of_reassign [simp]: "slot_of (a\<lparr>sa_employee_id := c\<rparr>) = slot_of a"
  by (simp add: slot_of_def)

lemma slots_reassign:
  "map slot_of (cells[i := (cells ! i)\<lparr>sa_employee_id := c\<rparr>]) = map slot_of cells"
proof (cases "i < length cells")
  case True
  then show ?thesis by (simp add: map_update list_update_same_conv)
next
  case False
  then show ?thesis by (simp add: list_update_beyond)
qed

lemma fix_overloaded_slots:
  "map slot_of (rb_cells (fix_overloaded T ctx emp st)) = map slot_of (rb_cells st)"
  by (auto simp: fix_overloaded_def Let_def slots_reassign split: option.splits)

lemma fold_fix_overloaded_slots:
  "map slot_of (rb_cells (fold (fix_overloaded T ctx) es st)) = map slot_of (rb_cells st)"
  by (induction es arbitrary: st) (simp_all add: fix_overloaded_slots)

lemma rebalance_loop_slots:
  "map slot_of (fst (rebalance_loop T ctx it n cells logs)) = map slot_of cells"
proof (induction n arbitrary: it cells logs)
  case 0
  then show ?case by simp
next
  case (Suc n)
  show ?case
    by (simp add: Let_def Suc.IH fold_fix_overloaded_slots)
qed

text \<open>
  C9.  The roster returned by \<open>rebalance_hours\<close> has as many assignments as the input
  roster and the same multiset of (date, shift code, station, store id) slots, indeed
  the same slot at every position: a reassignment changes an employee id only.  Store
  id and date range of the roster are those of the input.
\<close>

theorem rebalance_keeps_slots:
  "length (r_assignments (fst (rebalance_hours T max_iterations ctx roster))) =
     length (r_assignments roster) \<and>
   mset (map slot_of (r_assignments (fst (rebalance_hours T max_iterations ctx roster)))) =
     mset (map slot_of (r_assignments roster)) \<and>
   map slot_of (r_assignments (fst (rebalance_hours T max_iterations ctx roster))) =
     map slot_of (r_assignments roster) \<and>
   r_store_id (fst (rebalance_hours T max_iterations ctx roster)) = r_store_id roster \<and>
   r_start_date (fst (rebalance_hours T max_iterations ctx roster)) = r_start_date roster \<and>
   r_end_date (fst (rebalance_hours T max_iterations ctx roster)) = r_end_date roster"
proof -
  have m: "map slot_of (final_cells T max_iterations ctx roster) = map slot_of (r_assignments roster)"
    by (simp add: final_cells_def rebalance_loop_slots)
  then have "length (final_cells T max_iterations ctx roster) = length (r_assignments roster)"
    by (rule map_eq_imp_length_eq)
  with m show ?thesis by (simp add: rebalance_hours_def)
qed













text \<open>
  C4.  \<open>rebalance_hours\<close> copies the list of assignments, not the assignments, and
  writes the new employee id into the assignment object itself.  On the roster above
  the shift of day 5 moves from employee 1 to employee 2, and the argument roster, read
  after the call, shows it moved as the returned roster does: it is not unchanged.
\<close>

theorem rebalance_mutates_input:
  "input_roster_after DEFAULT_SHIFT_TEMPLATES 20 ctx_rebalance roster_overloaded = roster_rebalanced \<and>
   fst (rebalance_hours DEFAULT_SHIFT_TEMPLATES 20 ctx_rebalance roster_overloaded) = roster_rebalanced \<and>
   r_assignments roster_overloaded ! 5 = mk_sa ''1'' 5 ''S'' \<and>
   r_assignments roster_rebalanced ! 5 = mk_sa ''2'' 5 ''S'' \<and>
   roster_rebalanced \<noteq> roster_overloaded"
  by code_simp

text \<open>The theorems of C9 and C10 at the roster above.\<close>

theorem rebalance_keeps_slots_witness:
  "length (r_assignments (fst (rebalance_hours DEFAULT_SHIFT_TEMPLATES 20 ctx_rebalance roster_overloaded))) = 6 \<and>
   map slot_of (r_assignments (fst (rebalance_hours DEFAULT_SHIFT_TEMPLATES 20 ctx_rebalance roster_overloaded))) =
     map slot_of (r_assignments roster_overloaded) \<and>
   r_store_id (fst (rebalance_hours DEFAULT_SHIFT_TEMPLATES 20 ctx_rebalance roster_overloaded)) = ''store_1''"
  using rebalance_keeps_slots [of DEFAULT_SHIFT_TEMPLATES 20 ctx_rebalance roster_overloaded]
  by (simp add: roster_overloaded_def mk_roster_def)


section \<open>The roster generator\<close>

lemma set_collect_codes: "set (collect_codes acc codes) = set acc \<union> set codes"
  unfolding collect_codes_def
  by (induction codes arbitrary: acc) auto

lemma set_fold_days:
  "set (fold (\<lambda>day acc. collect_codes acc (remdups (snd day))) days acc) =
     set acc \<union> (\<Union>day\<in>set days. set (snd day))"
  by (induction days arbitrary: acc) (auto simp: set_collect_codes)

lemma set_fold_entries:
  "set (fold (\<lambda>entry acc. fold (\<lambda>day acc. collect_codes acc (remdups (snd day))) (snd entry) acc)
          entries acc) =
     set acc \<union> (\<Union>entry\<in>set entries. \<Union>day\<in>set (snd entry). set (snd day))"
  by (induction entries arbitrary: acc) (auto simp: set_fold_days)

lemma set_all_shift_codes:
  "set (all_shift_codes ctx) =
     (\<Union>entry\<in>set (availability ctx). \<Union>day\<in>set (snd entry). set (snd day))"
  by (simp add: all_shift_codes_def set_fold_entries)



text \<open>
  C8.  \<open>generate_initial_roster\<close> ends with an error, and no roster, exactly when the
  employee set is empty, or no shift code is found in the availability (every list of
  codes in it is empty), or the status of the solver is neither OPTIMAL nor FEASIBLE;
  in every other case it returns a roster.
\<close>

theorem generate_aborts_exactly:
  "((\<exists>err. generate_initial_roster solve T ctx store_id start_date end_date = Inl err) \<longleftrightarrow>
      employees ctx = [] \<or> all_shift_codes ctx = [] \<or>
      (fst (solve (build_model T ctx start_date end_date)) \<noteq> OPTIMAL \<and>
       fst (solve (build_model T ctx start_date end_date)) \<noteq> FEASIBLE)) \<and>
   ((\<exists>roster. generate_initial_roster solve T ctx store_id start_date end_date = Inr roster) \<longleftrightarrow>
      \<not> (employees ctx = [] \<or> all_shift_codes ctx = [] \<or>
         (fst (solve (build_model T ctx start_date end_date)) \<noteq> OPTIMAL \<and>
          fst (solve (build_model T ctx start_date end_date)) \<noteq> FEASIBLE))) \<and>
   (all_shift_codes ctx = [] \<longleftrightarrow>
      (\<forall>entry\<in>set (availability ctx). \<forall>day\<in>set (snd entry). snd day = []))"
proof -
  have "all_shift_codes ctx = [] \<longleftrightarrow> set (all_shift_codes ctx) = {}" by simp
  also have "\<dots> \<longleftrightarrow> (\<forall>entry\<in>set (availability ctx). \<forall>day\<in>set (snd entry). snd day = [])"
    unfolding set_all_shift_codes by auto
  finally have 3: "all_shift_codes ctx = [] \<longleftrightarrow>
      (\<forall>entry\<in>set (availability ctx). \<forall>day\<in>set (snd entry). snd day = [])" .
  obtain status val where s: "solve (build_model T ctx start_date end_date) = (status, val)"
    by (cases "solve (build_model T ctx start_date end_date)")
  show ?thesis
    using 3 by (auto simp: generate_initial_roster_def s)
qed































lemma opening_member [code_unfold]:
  "c \<in> OPENING_SHIFT_CODES T \<longleftrightarrow>
     (case T c of None \<Rightarrow> False | Some tpl \<Rightarrow> opening_test (tpl_start tpl))"
  by (simp add: OPENING_SHIFT_CODES_def)

lemma closing_member [code_unfold]:
  "c \<in> CLOSING_SHIFT_CODES T \<longleftrightarrow>
     (case T c of None \<Rightarrow> False | Some tpl \<Rightarrow> closing_test (tpl_end tpl))"
  by (simp add: CLOSING_SHIFT_CODES_def)


text \<open>
  The hours constraint counts in half-hour units rounded from the template hours: 8.25
  hours are 16 units, so that six \<open>Q\<close> shifts fit the 96 units of a casual contract
  and are 49.5 hours for \<open>check_roster\<close>, against a maximum of 48.
\<close>

lemma quarter_hour_exceeds_max_hours:
  "hours_units (33 / 4) = 16 \<and>
   feasible (build_model quarter_hour_templates ctx_quarter_hour 0 5) val_quarter_hour \<and>
   decode ctx_quarter_hour ''store_1'' (date_range 0 5) val_quarter_hour =
     r_assignments roster_quarter_hour \<and>
   map v_code (check_roster quarter_hour_templates ctx_quarter_hour roster_quarter_hour) =
     [''MAX_HOURS_EXCEEDED'', ''WEEKLY_MAX_HOURS_EXCEEDED'']"
  by code_simp





theorem generate_aborts_exactly_witness:
  "(\<exists>err. generate_initial_roster solver_infeasible DEFAULT_SHIFT_TEMPLATES ctx_small ''store_1'' 0 1 =
      Inl err) \<and>
   (\<exists>roster. generate_initial_roster solver_small DEFAULT_SHIFT_TEMPLATES ctx_small ''store_1'' 0 1 =
      Inr roster)"
proof -
  have e: "employees ctx_small \<noteq> []" and c: "all_shift_codes ctx_small \<noteq> []"
    by code_simp+
  have s1: "fst (solver_infeasible (build_model DEFAULT_SHIFT_TEMPLATES ctx_small 0 1)) = INFEASIBLE"
    and s2: "fst (solver_small (build_model DEFAULT_SHIFT_TEMPLATES ctx_small 0 1)) = FEASIBLE"
    by (simp_all add: solver_infeasible_def solver_small_def)
  show ?thesis
    using generate_aborts_exactly [of solver_infeasible DEFAULT_SHIFT_TEMPLATES ctx_small "''store_1''" 0 1]
      generate_aborts_exactly [of solver_small DEFAULT_SHIFT_TEMPLATES ctx_small "''store_1''" 0 1]
      e c s1 s2
    by simp
qed

end
